theory Spec2Isabelle
  imports Main "HOL-Library.Word" "HOL-Library.Monad_Syntax"
begin

unbundle bit_operations_syntax

chapter \<open>A shallow embedding of the editor core\<close>

text \<open>
  The development follows the C sources: \<^verbatim>\<open>helpers.h\<close>/\<^verbatim>\<open>helpers.c\<close> (points, rectangles),
  \<^verbatim>\<open>buffer.h\<close>/\<^verbatim>\<open>buffer.c\<close> (the gap buffer with its undo log), \<^verbatim>\<open>vt.h\<close>/\<^verbatim>\<open>vt.c\<close> (the
  tokenizer), \<^verbatim>\<open>input.c\<close> (the input classifier) and \<^verbatim>\<open>tui.c\<close> (layout and hit testing).

  Conventions. \<^verbatim>\<open>CoordType\<close> (a 32-bit signed integer) is \<^typ>\<open>int\<close>: signed overflow is
  undefined behaviour in C, so the model describes the executions without it. \<^verbatim>\<open>usize\<close>
  is \<^typ>\<open>nat\<close>, with the wrap-around modulo \<open>2 ^ 64\<close> written out where the source
  subtracts and the difference can be negative. Bytes (\<^verbatim>\<open>c8\<close>, an unsigned char) are
  \<^typ>\<open>8 word\<close>. The functions are those of a release build: \<^verbatim>\<open>assert\<close> expands to
  nothing and the code after it runs.
\<close>

section \<open>helpers.h: points, sizes and rectangles\<close>

type_synonym c8 = "8 word"

text \<open>\<^verbatim>\<open>Point\<close>; its fields \<^verbatim>\<open>x\<close> and \<^verbatim>\<open>y\<close> are \<open>px\<close> and \<open>py\<close> here.\<close>

record Point =
  px :: int
  py :: int

record Size =
  width :: int
  height :: int

record Rect =
  left :: int
  top :: int
  right :: int
  bottom :: int


definition rect_contains :: "Rect \<Rightarrow> Point \<Rightarrow> bool" where
  "rect_contains rect point =
     (px point \<ge> left rect \<and> px point < right rect \<and> py point \<ge> top rect \<and> py point < bottom rect)"



section \<open>buffer.h: the text buffer\<close>

record TextBufferStatistics =
  lines :: int

record TextBufferCursor =
  offset :: nat
  logical_pos :: Point
  visual_pos :: Point

datatype TextBufferSelectionState =
  TEXT_BUFFER_SELECTION_NONE
  | TEXT_BUFFER_SELECTION_MAYBE
  | TEXT_BUFFER_SELECTION_ACTIVE
  | TEXT_BUFFER_SELECTION_DONE

text \<open>The fields \<^verbatim>\<open>beg\<close>, \<^verbatim>\<open>end\<close> and \<^verbatim>\<open>state\<close> of \<^verbatim>\<open>TextBufferSelection\<close>.\<close>

record TextBufferSelection =
  sel_beg :: Point
  sel_end :: Point
  sel_state :: TextBufferSelectionState

text \<open>
  An entry of the undo log. The C struct links entries by pointers into the undo region;
  here a pointer is the byte offset of the entry in that region and \<open>None\<close> is
  \<^verbatim>\<open>NULL\<close>. The strings \<^verbatim>\<open>removed\<close> and \<^verbatim>\<open>inserted\<close> live behind the entry's header
  and are never rewritten, so they are kept by value.
\<close>

record TextBufferChange =
  ch_prev :: "nat option"
  ch_next :: "nat option"
  ch_cursor :: TextBufferCursor
  ch_removed :: "c8 list"
  ch_inserted :: "c8 list"

text \<open>
  \<^verbatim>\<open>TextBuffer\<close>. The memory behind \<^verbatim>\<open>tb->text\<close> is a map from byte index to byte
  (\<open>text_mem\<close>); the undo region behind \<^verbatim>\<open>tb->undo_base\<close> is \<open>None\<close> while the pointer
  is \<^verbatim>\<open>NULL\<close> and otherwise the entries it holds, by byte offset. An offset of the region
  that holds no entry reads as zeroed memory (\<open>zero_change\<close> below): the operating system
  commits zero pages. The allocator is the default one.
\<close>

record TextBuffer =
  main_commit :: nat
  text_mem :: "nat \<Rightarrow> c8"
  text_length :: nat
  gap_off :: nat
  gap_len :: nat
  undo_base :: "(nat \<rightharpoonup> TextBufferChange) option"
  undo_tail :: "nat option"
  undo_usage :: nat
  undo_commit :: nat
  stats :: TextBufferStatistics
  cursor :: TextBufferCursor
  selection :: TextBufferSelection
  word_wrap_columns :: int
  dirty :: bool
  overtype :: bool

subsection \<open>Selection\<close>

definition text_buffer_selection_update :: "TextBuffer \<Rightarrow> Point \<Rightarrow> TextBuffer" where
  "text_buffer_selection_update tb pos =
     (if sel_state (selection tb) = TEXT_BUFFER_SELECTION_NONE
         \<or> sel_state (selection tb) = TEXT_BUFFER_SELECTION_DONE
      then tb\<lparr>selection := (selection tb)\<lparr>sel_state := TEXT_BUFFER_SELECTION_MAYBE, sel_beg := pos\<rparr>\<rparr>
      else tb\<lparr>selection := (selection tb)\<lparr>sel_state := TEXT_BUFFER_SELECTION_ACTIVE, sel_end := pos\<rparr>\<rparr>)"

text \<open>The result pairs the returned \<^verbatim>\<open>bool\<close> with the buffer after the call.\<close>

definition text_buffer_selection_end :: "TextBuffer \<Rightarrow> bool \<times> TextBuffer" where
  "text_buffer_selection_end tb =
     (let active = (sel_state (selection tb) = TEXT_BUFFER_SELECTION_ACTIVE)
      in (active,
          tb\<lparr>selection := (selection tb)\<lparr>sel_state :=
            (if active then TEXT_BUFFER_SELECTION_DONE else TEXT_BUFFER_SELECTION_NONE)\<rparr>\<rparr>))"

subsection \<open>ucd.h: the Unicode oracle\<close>

text \<open>
  \<^verbatim>\<open>ucd.h\<close> declares the four measuring functions; their bodies are not part of the sources.
  The buffer operations therefore take them as a parameter \<open>U\<close>, a record of functions.
  \<^verbatim>\<open>ucd_measure_forward\<close> returns its result paired with the value it stores through the
  \<^verbatim>\<open>line_break\<close> out-pointer; the two \<^verbatim>\<open>ucd_newlines\<close> functions return the new offset
  paired with the value they leave in \<^verbatim>\<open>*line\<close>. A string view (\<^verbatim>\<open>s8\<close>) is passed by
  the bytes it spans.
\<close>

record UcdMeasurement =
  m_offset :: nat
  m_pos :: Point
  m_movements :: int
  m_newline :: bool

record Ucd =
  ucd_measure_forward :: "c8 list \<Rightarrow> nat \<Rightarrow> Point \<Rightarrow> int \<Rightarrow> int \<Rightarrow> UcdMeasurement \<times> UcdMeasurement"
  ucd_measure_backward :: "c8 list \<Rightarrow> nat \<Rightarrow> Point \<Rightarrow> int \<Rightarrow> int \<Rightarrow> UcdMeasurement"
  ucd_newlines_forward :: "c8 list \<Rightarrow> nat \<Rightarrow> int \<Rightarrow> int \<Rightarrow> nat \<times> int"
  ucd_newlines_backward :: "c8 list \<Rightarrow> nat \<Rightarrow> int \<Rightarrow> int \<Rightarrow> nat \<times> int"

subsection \<open>Constants, sizes and unsigned arithmetic\<close>

definition COORD_TYPE_MAX :: int where
  "COORD_TYPE_MAX = 2147483647"

definition COORD_TYPE_SAFE_MAX :: int where
  "COORD_TYPE_SAFE_MAX = 32767"

definition TEXT_BUFFER_ALLOC_MAX_BYTES :: nat where
  "TEXT_BUFFER_ALLOC_MAX_BYTES = 0x80000000"

definition TEXT_BUFFER_ALLOC_CHUNK_BYTES :: nat where
  "TEXT_BUFFER_ALLOC_CHUNK_BYTES = 0x10000"

definition TEXT_BUFFER_GAP_CHUNK_BYTES :: nat where
  "TEXT_BUFFER_GAP_CHUNK_BYTES = 0x1000"

text \<open>\<^verbatim>\<open>sizeof(TextBuffer)\<close> and \<^verbatim>\<open>sizeof(TextBufferChange)\<close> on the 64-bit targets of \<^verbatim>\<open>helpers.h\<close>.\<close>

definition sizeof_TextBuffer :: nat where
  "sizeof_TextBuffer = 160"

definition sizeof_TextBufferChange :: nat where
  "sizeof_TextBufferChange = 88"

text \<open>\<^verbatim>\<open>usize\<close> subtraction and addition, modulo \<open>2 ^ 64\<close>.\<close>

definition usize_sub :: "nat \<Rightarrow> nat \<Rightarrow> nat" where
  "usize_sub a b = (a + (2 ^ 64 - b mod 2 ^ 64)) mod 2 ^ 64"

definition usize_add :: "nat \<Rightarrow> nat \<Rightarrow> nat" where
  "usize_add a b = (a + b) mod 2 ^ 64"

text \<open>\<^verbatim>\<open>(n + c - 1) & ~(c - 1)\<close> for a power of two \<open>c\<close>: \<open>n\<close> rounded up to a multiple of \<open>c\<close>.\<close>

definition align_up :: "nat \<Rightarrow> nat \<Rightarrow> nat" where
  "align_up n c = ((n + c - 1) div c) * c"

text \<open>\<^verbatim>\<open>s8_slice(str, beg, end)\<close> of \<^verbatim>\<open>helpers.c\<close>, on the bytes of the view.\<close>

definition s8_slice :: "c8 list \<Rightarrow> nat \<Rightarrow> nat \<Rightarrow> c8 list" where
  "s8_slice str beg end' =
     (let end' = min end' (length str);
          beg = min beg end'
      in take (end' - beg) (drop beg str))"

text \<open>\<^verbatim>\<open>memmove\<close> inside one memory and \<^verbatim>\<open>memcpy\<close> of a byte string into it.\<close>

definition memmove :: "(nat \<Rightarrow> c8) \<Rightarrow> nat \<Rightarrow> nat \<Rightarrow> nat \<Rightarrow> (nat \<Rightarrow> c8)" where
  "memmove mem dst src n = (\<lambda>i. if dst \<le> i \<and> i < dst + n then mem (src + (i - dst)) else mem i)"

definition memcpy :: "(nat \<Rightarrow> c8) \<Rightarrow> nat \<Rightarrow> c8 list \<Rightarrow> (nat \<Rightarrow> c8)" where
  "memcpy mem dst bytes = (\<lambda>i. if dst \<le> i \<and> i < dst + length bytes then bytes ! (i - dst) else mem i)"

text \<open>The bytes of the view \<^verbatim>\<open>{tb->text + beg, len}\<close>.\<close>

definition view :: "TextBuffer \<Rightarrow> nat \<Rightarrow> nat \<Rightarrow> c8 list" where
  "view tb beg len = map (text_mem tb) [beg..<beg + len]"

subsection \<open>Allocation and the gap\<close>

text \<open>
  A function that can call \<^verbatim>\<open>abort()\<close>, dereference an invalid pointer or loop returns an
  \<open>option\<close>: \<open>None\<close> says that the call does not return.

  \<^verbatim>\<open>text_buffer_allocator_default_realloc(base, old_len, &new_len)\<close>: the result is the
  value stored in \<^verbatim>\<open>*new_len\<close>; the base pointer does not move.
\<close>

definition text_buffer_allocator_default_realloc :: "nat \<Rightarrow> nat \<Rightarrow> nat option" where
  "text_buffer_allocator_default_realloc old_len new_len =
     (let len = align_up new_len TEXT_BUFFER_ALLOC_CHUNK_BYTES
      in if len > TEXT_BUFFER_ALLOC_MAX_BYTES then None else Some len)"

definition zero_point :: Point where
  "zero_point = \<lparr>px = 0, py = 0\<rparr>"

definition zero_cursor :: TextBufferCursor where
  "zero_cursor = \<lparr>offset = 0, logical_pos = zero_point, visual_pos = zero_point\<rparr>"

definition zero_change :: TextBufferChange where
  "zero_change = \<lparr>ch_prev = None, ch_next = None, ch_cursor = zero_cursor, ch_removed = [], ch_inserted = []\<rparr>"

definition text_buffer_create :: "TextBuffer option" where
  "text_buffer_create = do {
     commit \<leftarrow> text_buffer_allocator_default_realloc 0 sizeof_TextBuffer;
     Some \<lparr>main_commit = commit, text_mem = (\<lambda>_. 0), text_length = 0, gap_off = 0, gap_len = 0,
           undo_base = None, undo_tail = None, undo_usage = 0, undo_commit = 0,
           stats = \<lparr>lines = 0\<rparr>, cursor = zero_cursor,
           selection = \<lparr>sel_beg = zero_point, sel_end = zero_point, sel_state = TEXT_BUFFER_SELECTION_NONE\<rparr>,
           word_wrap_columns = -1, dirty = False, overtype = False\<rparr>
   }"

definition text_buffer_allocate_gap_impl :: "TextBuffer \<Rightarrow> nat \<Rightarrow> nat \<Rightarrow> TextBuffer option" where
  "text_buffer_allocate_gap_impl tb0 off0 len =
     (let length = text_length tb0;
          gap_off0 = gap_off tb0;
          gap_len0 = gap_len tb0;
          off = min off0 length;
          tb1 = (if off \<noteq> gap_off0
                 then (let tb = (if gap_len0 > 0
                          then (let left = (off < gap_off0);
                                    move_src = (if left then off else gap_off0 + gap_len0);
                                    move_dst = (if left then off + gap_len0 else gap_off0);
                                    move_len = (if left then gap_off0 - off else off - gap_off0)
                                in tb0\<lparr>text_mem := memmove (text_mem tb0) move_dst move_src move_len\<rparr>)
                          else tb0)
                       in tb\<lparr>gap_off := off\<rparr>)
                 else tb0)
      in if len > gap_len0
         then (let gap_chunk_pad_chars = TEXT_BUFFER_GAP_CHUNK_BYTES div 2;
                   gap_len_new = align_up (len + gap_chunk_pad_chars) TEXT_BUFFER_GAP_CHUNK_BYTES;
                   bytes_old = main_commit tb1;
                   bytes_new = sizeof_TextBuffer + length + gap_len_new
               in do {
                 tb2 \<leftarrow> (if bytes_new > bytes_old
                         then do {
                           n \<leftarrow> text_buffer_allocator_default_realloc bytes_old bytes_new;
                           Some (tb1\<lparr>main_commit := n\<rparr>)
                         }
                         else Some tb1);
                 Some (tb2\<lparr>text_mem := memmove (text_mem tb2) (off + gap_len_new) (off + gap_len0) (length - off),
                           gap_len := gap_len_new\<rparr>)
               })
         else Some tb1)"

text \<open>The second component is the returned pointer \<^verbatim>\<open>tb->text + off\<close>, as an index of \<open>text_mem\<close>.\<close>

definition text_buffer_allocate_gap :: "TextBuffer \<Rightarrow> nat \<Rightarrow> nat \<Rightarrow> (TextBuffer \<times> nat) option" where
  "text_buffer_allocate_gap tb off len = do {
     tb' \<leftarrow> (if off \<noteq> gap_off tb \<or> len > gap_len tb
             then text_buffer_allocate_gap_impl tb off len
             else Some tb);
     Some (tb', off)
   }"

definition text_buffer_commit_gap :: "TextBuffer \<Rightarrow> nat \<Rightarrow> TextBuffer" where
  "text_buffer_commit_gap tb len0 =
     (let len = min len0 (gap_len tb)
      in tb\<lparr>gap_off := usize_add (gap_off tb) len,
            gap_len := gap_len tb - len,
            text_length := usize_add (text_length tb) len\<rparr>)"

definition text_buffer_read_backward :: "TextBuffer \<Rightarrow> nat \<Rightarrow> c8 list" where
  "text_buffer_read_backward tb off =
     (if off \<le> gap_off tb
      then view tb 0 off
      else view tb (gap_off tb + gap_len tb) (off - gap_off tb))"

definition text_buffer_read_forward :: "TextBuffer \<Rightarrow> nat \<Rightarrow> c8 list" where
  "text_buffer_read_forward tb off =
     (if off < gap_off tb
      then view tb off (gap_off tb - off)
      else view tb (off + gap_len tb) (usize_sub (text_length tb) off))"

text \<open>
  \<^verbatim>\<open>text_buffer_extract(tb, beg, end, dst)\<close>: the result is the byte string written to
  \<^verbatim>\<open>dst\<close>; the returned count is its length.
\<close>

definition text_buffer_extract :: "TextBuffer \<Rightarrow> nat \<Rightarrow> nat \<Rightarrow> c8 list" where
  "text_buffer_extract tb beg end' =
     (if beg \<ge> end' \<or> end' > text_length tb then []
      else (let part1 = (if beg < gap_off tb
                         then (let s = beg; l = min end' (gap_off tb) - beg in view tb s l)
                         else []);
                part2 = (if end' > gap_off tb
                         then (let s = max beg (gap_off tb); l = end' - s in view tb (gap_len tb + s) l)
                         else [])
            in part1 @ part2))"

subsection \<open>The undo region\<close>

text \<open>
  Reading and writing an entry through a pointer into the undo region. With
  \<^verbatim>\<open>tb->undo_base == NULL\<close> there is no region and the access does not return.
\<close>

definition undo_read :: "TextBuffer \<Rightarrow> nat \<Rightarrow> TextBufferChange option" where
  "undo_read tb p =
     (case undo_base tb of
        None \<Rightarrow> None
      | Some m \<Rightarrow> Some (case m p of None \<Rightarrow> zero_change | Some c \<Rightarrow> c))"

definition undo_write :: "TextBuffer \<Rightarrow> nat \<Rightarrow> TextBufferChange \<Rightarrow> TextBuffer option" where
  "undo_write tb p c =
     (case undo_base tb of
        None \<Rightarrow> None
      | Some m \<Rightarrow> Some (tb\<lparr>undo_base := Some (m(p \<mapsto> c))\<rparr>))"

text \<open>
  \<^verbatim>\<open>text_buffer_record_push_change\<close>. The allocator rounds \<^verbatim>\<open>usage_next\<close> up in place, and
  the rounded value is what the function later stores in \<^verbatim>\<open>undo_usage\<close>. The \<^verbatim>\<open>memset\<close>
  clears the entry header at the start of the region.
\<close>

definition text_buffer_record_push_change ::
    "TextBuffer \<Rightarrow> nat \<Rightarrow> nat \<Rightarrow> c8 list \<Rightarrow> TextBuffer option" where
  "text_buffer_record_push_change tb0 beg end' replacement =
     (if beg > end' \<or> end' > text_length tb0 then Some tb0
      else (let removed_len = end' - beg;
                space_needed = sizeof_TextBufferChange + removed_len + length replacement;
                usage_now = undo_usage tb0;
                usage_next0 = usage_now + space_needed
            in do {
              (tb1, usage_next) \<leftarrow>
                 (if usage_next0 > undo_commit tb0
                  then do {
                    n \<leftarrow> text_buffer_allocator_default_realloc (undo_commit tb0) usage_next0;
                    let region = (case undo_base tb0 of None \<Rightarrow> Map.empty | Some m \<Rightarrow> m);
                    let region = (if undo_tail tb0 \<noteq> None then region(0 \<mapsto> zero_change) else region);
                    Some (tb0\<lparr>undo_base := Some region, undo_commit := n\<rparr>, n)
                  }
                  else Some (tb0, usage_next0));
              let change = undo_usage tb1;
              let removed = text_buffer_extract tb1 beg end';
              let inserted = replacement;
              tb2 \<leftarrow> (case undo_tail tb1 of
                        None \<Rightarrow> Some tb1
                      | Some t \<Rightarrow> do {
                          c \<leftarrow> undo_read tb1 t;
                          undo_write tb1 t (c\<lparr>ch_next := Some change\<rparr>)
                        });
              tb3 \<leftarrow> undo_write tb2 change
                       \<lparr>ch_prev = undo_tail tb2, ch_next = None, ch_cursor = cursor tb2,
                        ch_removed = removed, ch_inserted = inserted\<rparr>;
              Some (tb3\<lparr>undo_tail := Some change, undo_usage := usage_next, dirty := True\<rparr>)
            }))"

subsection \<open>Cursor movement\<close>

text \<open>
  The loops of \<^verbatim>\<open>text_buffer_goto_line_start\<close>: the \<^verbatim>\<open>while\<close> loop that walks forward,
  the \<^verbatim>\<open>do ... while\<close> loop that walks backward, and the loop that counts wrapped lines
  (its result is \<^verbatim>\<open>delta\<close>). Whether they end depends on the oracle.
\<close>

partial_function (option) goto_line_start_forward :: "Ucd \<Rightarrow> int \<Rightarrow> TextBuffer \<Rightarrow> TextBuffer option" where
  "goto_line_start_forward U y tb =
     (if y > py (logical_pos (cursor tb))
      then (let chunk = text_buffer_read_forward tb (offset (cursor tb))
            in if length chunk = 0 then Some tb
               else (let r = ucd_newlines_forward U chunk 0 (py (logical_pos (cursor tb))) y;
                         c = cursor tb
                     in goto_line_start_forward U y
                          (tb\<lparr>cursor := c\<lparr>offset := usize_add (offset c) (fst r),
                                          logical_pos := (logical_pos c)\<lparr>py := snd r\<rparr>\<rparr>\<rparr>)))
      else Some tb)"

partial_function (option) goto_line_start_backward :: "Ucd \<Rightarrow> int \<Rightarrow> TextBuffer \<Rightarrow> TextBuffer option" where
  "goto_line_start_backward U y tb =
     (let chunk = text_buffer_read_backward tb (offset (cursor tb))
      in if length chunk = 0 then Some tb
         else (let r = ucd_newlines_backward U chunk (length chunk) (py (logical_pos (cursor tb))) y;
                   c = cursor tb;
                   tb' = tb\<lparr>cursor := c\<lparr>offset := usize_sub (offset c) (usize_sub (length chunk) (fst r)),
                                        logical_pos := (logical_pos c)\<lparr>py := snd r\<rparr>\<rparr>\<rparr>
               in if y < py (logical_pos (cursor tb'))
                  then goto_line_start_backward U y tb'
                  else Some tb'))"

partial_function (option) goto_line_start_wrapped ::
    "Ucd \<Rightarrow> TextBuffer \<Rightarrow> Point \<Rightarrow> nat \<Rightarrow> nat \<Rightarrow> int \<Rightarrow> int option" where
  "goto_line_start_wrapped U tb pos off goal_offset delta =
     (let chunk = text_buffer_read_forward tb off
      in if length chunk = 0 then Some delta
         else (let wrap = snd (ucd_measure_forward U chunk 0 pos (word_wrap_columns tb) (-1));
                   off' = usize_add off (m_offset wrap)
               in if off' \<ge> goal_offset then Some delta
                  else goto_line_start_wrapped U tb pos off' goal_offset (delta + 1)))"

definition text_buffer_goto_line_start :: "Ucd \<Rightarrow> TextBuffer \<Rightarrow> int \<Rightarrow> TextBuffer option" where
  "text_buffer_goto_line_start U tb0 y0 = do {
     let start_offset = offset (cursor tb0);
     (tb1, y1, done) \<leftarrow>
        (if y0 > py (logical_pos (cursor tb0))
         then do {
           tb \<leftarrow> goto_line_start_forward U y0 tb0;
           (if offset (cursor tb) \<noteq> text_length tb
            then Some (tb, y0, True)
            else Some (tb, py (logical_pos (cursor tb)) - 1, False))
         }
         else Some (tb0, y0, False));
     tb2 \<leftarrow> (if done then Some tb1 else goto_line_start_backward U y1 tb1);
     let tb3 = tb2\<lparr>cursor := (cursor tb2)\<lparr>logical_pos := (logical_pos (cursor tb2))\<lparr>px := 0\<rparr>\<rparr>\<rparr>;
     (if word_wrap_columns tb3 < 0
      then Some (tb3\<lparr>cursor := (cursor tb3)\<lparr>visual_pos := \<lparr>px = 0, py = py (logical_pos (cursor tb3))\<rparr>\<rparr>\<rparr>)
      else do {
        let (pos, off, goal_offset) =
              (if start_offset < offset (cursor tb3)
               then (\<lparr>px = px (visual_pos (cursor tb3)), py = 0\<rparr>, start_offset, offset (cursor tb3))
               else (zero_point, offset (cursor tb3), start_offset));
        delta \<leftarrow> (if off < goal_offset
                  then goto_line_start_wrapped U tb3 pos off goal_offset 0
                  else Some 0);
        let delta = (if start_offset > offset (cursor tb3) then - delta else delta);
        Some (tb3\<lparr>cursor := (cursor tb3)\<lparr>visual_pos :=
                \<lparr>px = 0, py = py (visual_pos (cursor tb3)) + delta\<rparr>\<rparr>\<rparr>)
      })
   }"

text \<open>The two loops of \<^verbatim>\<open>text_buffer_cursor_move_to_logical\<close>, without and with word wrap.\<close>

partial_function (option) move_to_logical_nowrap :: "Ucd \<Rightarrow> int \<Rightarrow> TextBuffer \<Rightarrow> TextBuffer option" where
  "move_to_logical_nowrap U x tb =
     (if x > px (logical_pos (cursor tb))
      then (let chunk = text_buffer_read_forward tb (offset (cursor tb))
            in if length chunk = 0 then Some tb
               else (let c = cursor tb;
                         m = fst (ucd_measure_forward U chunk 0 (visual_pos c) (-1) (x - px (logical_pos c)));
                         tb' = tb\<lparr>cursor := \<lparr>offset = usize_add (offset c) (m_offset m),
                                             logical_pos = (logical_pos c)\<lparr>px := px (logical_pos c) + m_movements m\<rparr>,
                                             visual_pos = m_pos m\<rparr>\<rparr>
                     in if m_offset m < length chunk then Some tb'
                        else move_to_logical_nowrap U x tb'))
      else Some tb)"

partial_function (option) move_to_logical_wrap :: "Ucd \<Rightarrow> int \<Rightarrow> TextBuffer \<Rightarrow> TextBuffer option" where
  "move_to_logical_wrap U x tb =
     (let chunk = text_buffer_read_forward tb (offset (cursor tb))
      in if length chunk = 0 then Some tb
         else (let c = cursor tb;
                   r = ucd_measure_forward U chunk 0 (visual_pos c) (word_wrap_columns tb) (x - px (logical_pos c));
                   m = fst r;
                   wrap = snd r;
                   tb' = tb\<lparr>cursor := \<lparr>offset = usize_add (offset c) (m_offset wrap),
                                       logical_pos = (logical_pos c)\<lparr>px := px (logical_pos c) + m_movements wrap\<rparr>,
                                       visual_pos = m_pos wrap\<rparr>\<rparr>
               in if m_offset m < length chunk then Some tb'
                  else move_to_logical_wrap U x
                         (tb'\<lparr>cursor := (cursor tb')\<lparr>visual_pos :=
                             \<lparr>px = 0, py = py (visual_pos (cursor tb')) + 1\<rparr>\<rparr>\<rparr>)))"

text \<open>The returned offset is \<open>offset (cursor tb')\<close> of the buffer \<open>tb'\<close> returned here.\<close>

definition text_buffer_cursor_move_to_logical :: "Ucd \<Rightarrow> TextBuffer \<Rightarrow> Point \<Rightarrow> TextBuffer option" where
  "text_buffer_cursor_move_to_logical U tb0 pos = do {
     let x = max (px pos) 0;
     let y = max (py pos) 0;
     tb \<leftarrow> text_buffer_goto_line_start U tb0 y;
     (if word_wrap_columns tb < 0
      then move_to_logical_nowrap U x tb
      else (if x > px (logical_pos (cursor tb))
            then move_to_logical_wrap U x tb
            else Some tb))
   }"

definition text_buffer_cursor_move_delta :: "Ucd \<Rightarrow> TextBuffer \<Rightarrow> int \<Rightarrow> TextBuffer option" where
  "text_buffer_cursor_move_delta U tb0 cursor_movements =
     (if cursor_movements < 0
      then do {
        let off = offset (cursor tb0);
        tb \<leftarrow> text_buffer_cursor_move_to_logical U tb0
                \<lparr>px = px (logical_pos (cursor tb0)) - 1, py = py (logical_pos (cursor tb0))\<rparr>;
        (if off = offset (cursor tb)
         then text_buffer_cursor_move_to_logical U tb
                \<lparr>px = COORD_TYPE_SAFE_MAX, py = py (logical_pos (cursor tb)) - 1\<rparr>
         else Some tb)
      }
      else if cursor_movements > 0
      then do {
        let off = offset (cursor tb0);
        tb \<leftarrow> text_buffer_cursor_move_to_logical U tb0
                \<lparr>px = px (logical_pos (cursor tb0)) + 1, py = py (logical_pos (cursor tb0))\<rparr>;
        (if off = offset (cursor tb)
         then text_buffer_cursor_move_to_logical U tb
                \<lparr>px = 0, py = py (logical_pos (cursor tb)) + 1\<rparr>
         else Some tb)
      }
      else Some tb0)"

text \<open>
  \<^verbatim>\<open>text_buffer_reflow\<close>: the cursor is cleared and moved back to the logical position it
  had.
\<close>

definition text_buffer_reflow :: "Ucd \<Rightarrow> TextBuffer \<Rightarrow> int \<Rightarrow> TextBuffer option" where
  "text_buffer_reflow U tb width0 =
     (let width = (if width0 \<le> 0 then -1 else width0)
      in if word_wrap_columns tb = width then Some tb
         else (let pos = logical_pos (cursor tb)
               in text_buffer_cursor_move_to_logical U
                    (tb\<lparr>word_wrap_columns := width, cursor := zero_cursor\<rparr>) pos))"

subsection \<open>Undo, redo and write\<close>

definition text_buffer_apply_change :: "Ucd \<Rightarrow> TextBuffer \<Rightarrow> TextBufferChange \<Rightarrow> TextBuffer option" where
  "text_buffer_apply_change U tb0 change = do {
     let tb1 = tb0\<lparr>cursor := ch_cursor change\<rparr>;
     let gap_len' = max (length (ch_removed change)) (length (ch_inserted change)) - length (ch_inserted change);
     (tb2, dst) \<leftarrow> text_buffer_allocate_gap tb1 (offset (cursor tb1)) gap_len';
     let count = length (ch_inserted change);
     let tb3 = tb2\<lparr>gap_len := usize_add (gap_len tb2) count, text_length := usize_sub (text_length tb2) count\<rparr>;
     let str = ch_removed change;
     let tb4 = text_buffer_commit_gap (tb3\<lparr>text_mem := memcpy (text_mem tb3) dst str\<rparr>) (length str);
     let cursor_before = cursor tb4;
     tb5 \<leftarrow> text_buffer_cursor_move_delta U tb4 (-1);
     let backoff_count = usize_sub (offset cursor_before) (offset (cursor tb5));
     let chunk = text_buffer_read_forward tb5 (offset (cursor tb5));
     let chunk = s8_slice chunk 0 (usize_add backoff_count (length str));
     let after = fst (ucd_measure_forward U chunk 0 (logical_pos (cursor tb5)) COORD_TYPE_MAX COORD_TYPE_MAX);
     Some (tb5\<lparr>cursor := (cursor tb5)\<lparr>offset := usize_add (offset (cursor tb5)) (m_offset after),
                                      logical_pos := m_pos after\<rparr>\<rparr>)
   }"

definition text_buffer_undo :: "Ucd \<Rightarrow> TextBuffer \<Rightarrow> TextBuffer option" where
  "text_buffer_undo U tb =
     (case undo_tail tb of
        None \<Rightarrow> Some tb
      | Some p \<Rightarrow> do {
          change \<leftarrow> undo_read tb p;
          tb' \<leftarrow> text_buffer_apply_change U (tb\<lparr>undo_tail := ch_prev change\<rparr>) change;
          undo_write tb' p
            (change\<lparr>ch_cursor := cursor tb', ch_removed := ch_inserted change, ch_inserted := ch_removed change\<rparr>)
        })"

definition text_buffer_redo :: "Ucd \<Rightarrow> TextBuffer \<Rightarrow> TextBuffer option" where
  "text_buffer_redo U tb =
     (case (case undo_tail tb of
              Some p \<Rightarrow> Some p
            | None \<Rightarrow> (case undo_base tb of None \<Rightarrow> None | Some m \<Rightarrow> Some 0)) of
        None \<Rightarrow> Some tb
      | Some p \<Rightarrow> do {
          change0 \<leftarrow> undo_read tb p;
          (case ch_next change0 of
             None \<Rightarrow> Some tb
           | Some q \<Rightarrow> do {
               change \<leftarrow> undo_read tb q;
               let cursor0 = cursor tb;
               tb' \<leftarrow> text_buffer_apply_change U (tb\<lparr>undo_tail := Some q\<rparr>) change;
               undo_write tb' q
                 (change\<lparr>ch_cursor := cursor0, ch_removed := ch_inserted change, ch_inserted := ch_removed change\<rparr>)
             })
        })"

text \<open>
  \<^verbatim>\<open>text_buffer_write\<close>. \<^verbatim>\<open>prev_bck.newline\<close> is left uninitialised by the source on the
  first branch and never read; it is \<open>False\<close> here.
\<close>

definition text_buffer_write :: "Ucd \<Rightarrow> TextBuffer \<Rightarrow> c8 list \<Rightarrow> TextBuffer option" where
  "text_buffer_write U tb0 str =
     (if length str = 0 then Some tb0
      else do {
        (tb1, dst) \<leftarrow> text_buffer_allocate_gap tb0 (offset (cursor tb0)) (length str);
        let tb2 = tb1\<lparr>text_mem := memcpy (text_mem tb1) dst str\<rparr>;
        let text = view tb2 0 (gap_off tb2 + length str);
        let (prev_bck, prev_fwd) =
              (if gap_off tb2 = 0 \<or> text_mem tb2 (gap_off tb2 - 1) = 0x09
               then (let m = \<lparr>m_offset = gap_off tb2, m_pos = logical_pos (cursor tb2),
                              m_movements = 0, m_newline = False\<rparr>
                     in (m, m))
               else (let bck = ucd_measure_backward U text (gap_off tb2) (logical_pos (cursor tb2)) (-1) 1;
                         fwd = fst (ucd_measure_forward U text (m_offset bck) (m_pos bck) (-1) 1)
                     in (bck, fwd)));
        let next = fst (ucd_measure_forward U text (m_offset prev_fwd) (m_pos prev_fwd) (-1) (-1));
        let (off_beg, off_end) =
              (if overtype tb2
               then (let fwd = fst (ucd_measure_forward U (text_buffer_read_forward tb2 (offset (cursor tb2))) 0
                                      (logical_pos (cursor tb2)) COORD_TYPE_MAX (m_movements next));
                         combines_with_preceding = (m_offset prev_fwd \<noteq> gap_off tb2)
                     in ((if combines_with_preceding then m_offset prev_bck else m_offset prev_fwd),
                         gap_off tb2 + m_offset fwd))
               else (offset (cursor tb2), offset (cursor tb2)));
        tb3 \<leftarrow> text_buffer_record_push_change tb2 off_beg off_end str;
        let tb4 = text_buffer_commit_gap tb3 (length str);
        Some (tb4\<lparr>gap_len := usize_add (gap_len tb4) (usize_sub off_end off_beg),
                  cursor := (cursor tb4)\<lparr>offset := m_offset next, logical_pos := m_pos next\<rparr>\<rparr>)
      })"

subsection \<open>Concrete buffers used in the examples\<close>

text \<open>The buffer \<^verbatim>\<open>text_buffer_create\<close> returns, and the bytes of \<^verbatim>\<open>"hello"\<close>.\<close>

definition fresh_buffer :: TextBuffer where
  "fresh_buffer =
     \<lparr>main_commit = 65536, text_mem = (\<lambda>_. 0), text_length = 0, gap_off = 0, gap_len = 0,
      undo_base = None, undo_tail = None, undo_usage = 0, undo_commit = 0,
      stats = \<lparr>lines = 0\<rparr>, cursor = zero_cursor,
      selection = \<lparr>sel_beg = zero_point, sel_end = zero_point, sel_state = TEXT_BUFFER_SELECTION_NONE\<rparr>,
      word_wrap_columns = -1, dirty = False, overtype = False\<rparr>"

definition hello :: "c8 list" where
  "hello = [0x68, 0x65, 0x6c, 0x6c, 0x6f]"

text \<open>
  A cursor at offset 0 on its line: what the cursor movements leave behind in a buffer
  without text and without word wrap.
\<close>

definition at_origin :: "TextBuffer \<Rightarrow> TextBuffer" where
  "at_origin tb =
     tb\<lparr>cursor := \<lparr>offset = 0,
                    logical_pos = \<lparr>px = 0, py = py (logical_pos (cursor tb))\<rparr>,
                    visual_pos = \<lparr>px = 0, py = py (logical_pos (cursor tb))\<rparr>\<rparr>\<rparr>"

section \<open>vt.h and vt.c: the tokenizer\<close>

datatype VtParserStateKind =
  VT_PARSER_STATE_KIND_GROUND
  | VT_PARSER_STATE_KIND_ESC
  | VT_PARSER_STATE_KIND_SS3
  | VT_PARSER_STATE_KIND_CSI
  | VT_PARSER_STATE_KIND_OSC
  | VT_PARSER_STATE_KIND_DCS
  | VT_PARSER_STATE_KIND_OSC_ESC
  | VT_PARSER_STATE_KIND_DCS_ESC

datatype VtTokenKind =
  VT_TOKEN_KIND_TEXT
  | VT_TOKEN_KIND_CTRL
  | VT_TOKEN_KIND_ESC
  | VT_TOKEN_KIND_SS3
  | VT_TOKEN_KIND_CSI
  | VT_TOKEN_KIND_OSC
  | VT_TOKEN_KIND_DCS
  | VT_TOKEN_KIND_PENDING

text \<open>
  A string view that points into the caller's input: the address of its first byte and
  its length. The tokenizer never copies bytes, it only stores such views.
\<close>

record s8 =
  s8_beg :: nat
  s8_len :: nat

text \<open>
  \<^verbatim>\<open>CsiState\<close>. The array \<^verbatim>\<open>params[32]\<close> is a map from index to value, of which the
  indices below 32 exist.
\<close>

record CsiState =
  params :: "nat \<Rightarrow> int"
  param_count :: int
  private_byte :: c8
  final_byte :: c8

text \<open>\<^verbatim>\<open>VtParserState\<close>; its field \<^verbatim>\<open>_state\<close> is \<open>vt_state\<close> and the others carry the same prefix.\<close>

record VtParserState =
  vt_state :: VtParserStateKind
  vt_kind :: VtTokenKind
  vt_text :: s8
  vt_ctrl :: c8
  vt_esc :: c8
  vt_ss3 :: c8
  vt_csi :: CsiState
  vt_osc :: s8
  vt_dcs :: s8

text \<open>The state of a zero-initialised \<^verbatim>\<open>VtParserState\<close>, as \<^verbatim>\<open>main.c\<close> declares it.\<close>

definition vt_initial :: VtParserState where
  "vt_initial =
     \<lparr>vt_state = VT_PARSER_STATE_KIND_GROUND, vt_kind = VT_TOKEN_KIND_TEXT,
      vt_text = \<lparr>s8_beg = 0, s8_len = 0\<rparr>, vt_ctrl = 0, vt_esc = 0, vt_ss3 = 0,
      vt_csi = \<lparr>params = (\<lambda>_. 0), param_count = 0, private_byte = 0, final_byte = 0\<rparr>,
      vt_osc = \<lparr>s8_beg = 0, s8_len = 0\<rparr>, vt_dcs = \<lparr>s8_beg = 0, s8_len = 0\<rparr>\<rparr>"

text \<open>The test of the text loop: \<^verbatim>\<open>*it >= '\x20' && *it != '\x7f'\<close>.\<close>

definition vt_printable :: "c8 \<Rightarrow> bool" where
  "vt_printable c = (c \<ge> 0x20 \<and> c \<noteq> 0x7f)"

text \<open>
  The loop that clears the parameters on \<^verbatim>\<open>ESC [\<close>:
  \<^verbatim>\<open>while (param_count > 0) { param_count -= 1; params[param_count] = 0; }\<close>.
  With a count above 32 its first store lies outside the array; the behaviour is
  undefined and the model has no result (\<open>None\<close>).
\<close>

definition csi_reset :: "CsiState \<Rightarrow> CsiState option" where
  "csi_reset c =
     (if param_count c > 32 then None
      else if param_count c > 0
      then Some (c\<lparr>params := (\<lambda>i. if int i < param_count c then 0 else params c i), param_count := 0\<rparr>)
      else Some c)"

text \<open>
  The \<^verbatim>\<open>for (;;)\<close> loop of the CSI state, one byte per step: a digit is consumed by one
  of the two inner \<^verbatim>\<open>while\<close> loops (stored into \<^verbatim>\<open>params[param_count]\<close> while slots are
  left, skipped otherwise), any other byte by \<^verbatim>\<open>c = *it++\<close>. The comparison
  \<^verbatim>\<open>param_count < array_size(params)\<close> is unsigned. The result is the state and the
  bytes not consumed.
\<close>

fun vt_csi_loop :: "VtParserState \<Rightarrow> c8 list \<Rightarrow> VtParserState \<times> c8 list" where
  "vt_csi_loop st [] = (st, [])"
| "vt_csi_loop st (c # cs) =
     (if c \<ge> 0x30 \<and> c \<le> 0x39
      then (if 0 \<le> param_count (vt_csi st) \<and> param_count (vt_csi st) < 32
            then (let dst = nat (param_count (vt_csi st));
                      v = params (vt_csi st) dst * 10 + (uint c - 0x30)
                  in vt_csi_loop
                       (st\<lparr>vt_csi := (vt_csi st)\<lparr>params := (params (vt_csi st))(dst := min v 0xffff)\<rparr>\<rparr>) cs)
            else vt_csi_loop st cs)
      else if c \<ge> 0x40 \<and> c \<le> 0x7e
      then (st\<lparr>vt_state := VT_PARSER_STATE_KIND_GROUND, vt_kind := VT_TOKEN_KIND_CSI,
               vt_csi := (vt_csi st)\<lparr>final_byte := c, param_count := param_count (vt_csi st) + 1\<rparr>\<rparr>, cs)
      else (let st1 = (if c = 0x3b
                       then st\<lparr>vt_csi := (vt_csi st)\<lparr>param_count := param_count (vt_csi st) + 1\<rparr>\<rparr>
                       else st);
                st2 = (if c \<ge> 0x3c \<and> c \<le> 0x3f
                       then st1\<lparr>vt_csi := (vt_csi st1)\<lparr>private_byte := c\<rparr>\<rparr>
                       else st1)
            in vt_csi_loop st2 cs))"

text \<open>
  The \<^verbatim>\<open>for (;;)\<close> loop shared by the OSC and DCS states, one byte per step; \<open>it\<close> is the
  address of the first of the bytes. The length is always computed from \<^verbatim>\<open>osc.beg\<close> and
  stored in \<^verbatim>\<open>osc.len\<close>, also in the DCS state.
\<close>

definition vt_string_kind :: "VtParserState \<Rightarrow> VtTokenKind" where
  "vt_string_kind st =
     (if vt_state st = VT_PARSER_STATE_KIND_OSC then VT_TOKEN_KIND_OSC else VT_TOKEN_KIND_DCS)"

definition vt_string_found :: "VtParserState \<Rightarrow> nat \<Rightarrow> VtParserState" where
  "vt_string_found st it =
     st\<lparr>vt_kind := vt_string_kind st,
        vt_osc := (vt_osc st)\<lparr>s8_len := usize_sub it (s8_beg (vt_osc st))\<rparr>\<rparr>"

fun vt_string_loop :: "VtParserState \<Rightarrow> nat \<Rightarrow> c8 list \<Rightarrow> VtParserState \<times> c8 list" where
  "vt_string_loop st it [] = (vt_string_found st it, [])"
| "vt_string_loop st it (c # cs) =
     (if c \<noteq> 0x07 \<and> c \<noteq> 0x1b then vt_string_loop st (it + 1) cs
      else (let st1 = vt_string_found st it
            in if c = 0x1b
               then (case cs of
                       [] \<Rightarrow> (st1\<lparr>vt_state := (if vt_state st1 = VT_PARSER_STATE_KIND_OSC
                                                then VT_PARSER_STATE_KIND_OSC_ESC
                                                else VT_PARSER_STATE_KIND_DCS_ESC)\<rparr>, [])
                     | d # ds \<Rightarrow>
                         (if d \<noteq> 0x5c then vt_string_loop st1 (it + 1) cs
                          else (st1\<lparr>vt_state := VT_PARSER_STATE_KIND_GROUND\<rparr>, ds)))
               else (st1\<lparr>vt_state := VT_PARSER_STATE_KIND_GROUND\<rparr>, cs)))"

text \<open>
  The \<^verbatim>\<open>while (it != end)\<close> loop with its \<^verbatim>\<open>switch\<close>. In the states \<^verbatim>\<open>OSC_ESC\<close> and
  \<^verbatim>\<open>DCS_ESC\<close> a byte other than a backslash sets the state back to OSC or DCS and
  breaks out of the switch; the next round of the loop, at the same byte, is the string
  loop, which is called here directly.
\<close>

fun vt_loop :: "VtParserState \<Rightarrow> nat \<Rightarrow> c8 list \<Rightarrow> (VtParserState \<times> c8 list) option" where
  "vt_loop st it [] = Some (st, [])"
| "vt_loop st it (c # cs) =
     (case vt_state st of
        VT_PARSER_STATE_KIND_GROUND \<Rightarrow>
          (if c = 0x1b then vt_loop (st\<lparr>vt_state := VT_PARSER_STATE_KIND_ESC\<rparr>) (it + 1) cs
           else if c < 0x20 \<or> c = 0x7f
           then Some (st\<lparr>vt_kind := VT_TOKEN_KIND_CTRL, vt_ctrl := c\<rparr>, cs)
           else (let run = takeWhile vt_printable (c # cs)
                 in Some (st\<lparr>vt_kind := VT_TOKEN_KIND_TEXT,
                              vt_text := \<lparr>s8_beg = it, s8_len = length run\<rparr>\<rparr>,
                          dropWhile vt_printable (c # cs))))
      | VT_PARSER_STATE_KIND_ESC \<Rightarrow>
          (if c = 0x5b
           then do {
             csi' \<leftarrow> csi_reset ((vt_csi st)\<lparr>private_byte := 0, final_byte := 0\<rparr>);
             vt_loop (st\<lparr>vt_state := VT_PARSER_STATE_KIND_CSI, vt_csi := csi'\<rparr>) (it + 1) cs
           }
           else if c = 0x5d
           then vt_loop (st\<lparr>vt_state := VT_PARSER_STATE_KIND_OSC,
                            vt_osc := \<lparr>s8_beg = it + 1, s8_len = 0\<rparr>\<rparr>) (it + 1) cs
           else if c = 0x4f
           then vt_loop (st\<lparr>vt_state := VT_PARSER_STATE_KIND_SS3\<rparr>) (it + 1) cs
           else if c = 0x50
           then vt_loop (st\<lparr>vt_state := VT_PARSER_STATE_KIND_DCS,
                            vt_dcs := \<lparr>s8_beg = it + 1, s8_len = 0\<rparr>\<rparr>) (it + 1) cs
           else Some (st\<lparr>vt_state := VT_PARSER_STATE_KIND_GROUND, vt_kind := VT_TOKEN_KIND_ESC,
                         vt_esc := c\<rparr>, cs))
      | VT_PARSER_STATE_KIND_SS3 \<Rightarrow>
          Some (st\<lparr>vt_state := VT_PARSER_STATE_KIND_GROUND, vt_kind := VT_TOKEN_KIND_SS3,
                   vt_ss3 := c\<rparr>, cs)
      | VT_PARSER_STATE_KIND_CSI \<Rightarrow> Some (vt_csi_loop st (c # cs))
      | VT_PARSER_STATE_KIND_OSC \<Rightarrow> Some (vt_string_loop st it (c # cs))
      | VT_PARSER_STATE_KIND_DCS \<Rightarrow> Some (vt_string_loop st it (c # cs))
      | VT_PARSER_STATE_KIND_OSC_ESC \<Rightarrow>
          (if c = 0x5c
           then Some (st\<lparr>vt_kind := VT_TOKEN_KIND_OSC,
                         vt_osc := (vt_osc st)\<lparr>s8_len := usize_sub (it + 1) (s8_beg (vt_osc st))\<rparr>\<rparr>, cs)
           else Some (vt_string_loop (st\<lparr>vt_state := VT_PARSER_STATE_KIND_OSC\<rparr>) it (c # cs)))
      | VT_PARSER_STATE_KIND_DCS_ESC \<Rightarrow>
          (if c = 0x5c
           then Some (st\<lparr>vt_kind := VT_TOKEN_KIND_DCS,
                         vt_osc := (vt_osc st)\<lparr>s8_len := usize_sub (it + 1) (s8_beg (vt_osc st))\<rparr>\<rparr>, cs)
           else Some (vt_string_loop (st\<lparr>vt_state := VT_PARSER_STATE_KIND_DCS\<rparr>) it (c # cs))))"

text \<open>
  \<^verbatim>\<open>vt_parse_next_token(state, beg, end)\<close>: \<open>beg\<close> is the address of the first byte and
  \<open>bytes\<close> are the bytes from \<^verbatim>\<open>beg\<close> up to \<^verbatim>\<open>end\<close>. The result is the state after the
  call and the bytes from the returned pointer up to \<^verbatim>\<open>end\<close>.
\<close>

definition vt_parse_next_token ::
    "VtParserState \<Rightarrow> nat \<Rightarrow> c8 list \<Rightarrow> (VtParserState \<times> c8 list) option" where
  "vt_parse_next_token st beg bytes = vt_loop (st\<lparr>vt_kind := VT_TOKEN_KIND_PENDING\<rparr>) beg bytes"

text \<open>A call on a non-empty input consumes at least one byte.\<close>

lemma vt_csi_loop_length: "length (snd (vt_csi_loop st bytes)) \<le> length bytes"
  by (induction bytes arbitrary: st) (simp_all add: Let_def le_SucI)

lemma vt_string_loop_length: "length (snd (vt_string_loop st it bytes)) \<le> length bytes"
proof (induction bytes arbitrary: st it)
  case Nil
  then show ?case by simp
next
  case (Cons c cs)
  show ?case
  proof (cases cs)
    case Nil
    then show ?thesis by (simp add: Let_def)
  next
    case (Cons d ds)
    with Cons.IH show ?thesis by (simp add: Let_def le_SucI)
  qed
qed

lemma vt_csi_loop_progress: "length (snd (vt_csi_loop st (c # cs))) \<le> length cs"
  using vt_csi_loop_length [of _ cs] by (simp add: Let_def)

lemma vt_string_loop_progress: "length (snd (vt_string_loop st it (c # cs))) \<le> length cs"
  using vt_string_loop_length [of _ _ cs] by (cases cs) (simp_all add: Let_def le_SucI)

lemma vt_loop_length:
  "vt_loop st it bytes = Some (st', rest) \<Longrightarrow> length rest \<le> length bytes - 1"
proof (induction bytes arbitrary: st it)
  case Nil
  then show ?case by simp
next
  case (Cons c cs)
  have ih: "vt_loop s i cs = Some (st', rest) \<Longrightarrow> length rest \<le> length cs" for s i
    using Cons.IH [of s i] by simp
  have drop: "length (dropWhile vt_printable (c # cs)) \<le> length cs" if "vt_printable c"
    using that length_dropWhile_le [of vt_printable cs] by simp
  have pr: "vt_printable c" if "\<not> (c < 0x20 \<or> c = 0x7f)"
    using that by (simp add: vt_printable_def not_less)
  note csi = vt_csi_loop_progress [of st c cs]
  note str = vt_string_loop_progress [of _ it c cs]
  from Cons.prems show ?case
  proof (cases "vt_state st")
    case VT_PARSER_STATE_KIND_GROUND
    with Cons.prems ih drop pr show ?thesis
      by (auto simp add: Let_def split: if_splits)
  next
    case VT_PARSER_STATE_KIND_ESC
    with Cons.prems ih show ?thesis
      by (auto simp add: Let_def split: if_splits bind_splits)
  next
    case VT_PARSER_STATE_KIND_SS3
    with Cons.prems show ?thesis by auto
  next
    case VT_PARSER_STATE_KIND_CSI
    with Cons.prems csi show ?thesis by auto
  next
    case VT_PARSER_STATE_KIND_OSC
    with Cons.prems str [of st] show ?thesis by auto
  next
    case VT_PARSER_STATE_KIND_DCS
    with Cons.prems str [of st] show ?thesis by auto
  next
    case VT_PARSER_STATE_KIND_OSC_ESC
    with Cons.prems str [of "st\<lparr>vt_state := VT_PARSER_STATE_KIND_OSC\<rparr>"] show ?thesis
      by (auto split: if_splits)
  next
    case VT_PARSER_STATE_KIND_DCS_ESC
    with Cons.prems str [of "st\<lparr>vt_state := VT_PARSER_STATE_KIND_DCS\<rparr>"] show ?thesis
      by (auto split: if_splits)
  qed
qed

lemma vt_parse_next_token_length:
  "vt_parse_next_token st beg bytes = Some (st', rest) \<Longrightarrow> length rest \<le> length bytes - 1"
  unfolding vt_parse_next_token_def by (rule vt_loop_length)

section \<open>tui.h and input.c: input events and the classifier\<close>

datatype UiInputType =
  UI_INPUT_NONE
  | UI_INPUT_RESIZE
  | UI_INPUT_TEXT
  | UI_INPUT_KEYBOARD
  | UI_INPUT_MOUSE

definition KEYBOARD_MODIFIER_NONE :: int where "KEYBOARD_MODIFIER_NONE = 0x00000000"
definition KEYBOARD_MODIFIER_CTRL :: int where "KEYBOARD_MODIFIER_CTRL = 0x01000000"
definition KEYBOARD_MODIFIER_ALT :: int where "KEYBOARD_MODIFIER_ALT = 0x02000000"
definition KEYBOARD_MODIFIER_SHIFT :: int where "KEYBOARD_MODIFIER_SHIFT = 0x04000000"

definition VK_NULL :: int where "VK_NULL = 0x00"
definition VK_BACK :: int where "VK_BACK = 0x08"
definition VK_TAB :: int where "VK_TAB = 0x09"
definition VK_RETURN :: int where "VK_RETURN = 0x0D"
definition VK_PRIOR :: int where "VK_PRIOR = 0x21"
definition VK_NEXT :: int where "VK_NEXT = 0x22"
definition VK_END :: int where "VK_END = 0x23"
definition VK_HOME :: int where "VK_HOME = 0x24"
definition VK_LEFT :: int where "VK_LEFT = 0x25"
definition VK_UP :: int where "VK_UP = 0x26"
definition VK_RIGHT :: int where "VK_RIGHT = 0x27"
definition VK_DOWN :: int where "VK_DOWN = 0x28"
definition VK_INSERT :: int where "VK_INSERT = 0x2D"
definition VK_DELETE :: int where "VK_DELETE = 0x2E"
definition VK_F1 :: int where "VK_F1 = 0x70"

datatype MouseAction =
  MOUSE_ACTION_NONE
  | MOUSE_ACTION_RELEASE
  | MOUSE_ACTION_LEFT
  | MOUSE_ACTION_MIDDLE
  | MOUSE_ACTION_RIGHT
  | MOUSE_ACTION_SCROLL


record UiInputKeyboard =
  kb_key :: int
  kb_modifiers :: int

record UiInputMouse =
  mouse_action :: MouseAction
  mouse_modifier :: int
  mouse_position :: Point
  mouse_scroll :: Point

text \<open>
  \<^verbatim>\<open>UiInput\<close>: the tag \<^verbatim>\<open>type\<close> and the members of the anonymous union. The members are
  separate fields here; the code reads a member only under its own tag.
\<close>

record UiInput =
  ui_type :: UiInputType
  ui_resize :: Size
  ui_text :: s8
  ui_keyboard :: UiInputKeyboard
  ui_mouse :: UiInputMouse

text \<open>The value of \<^verbatim>\<open>UiInput result = {}\<close>.\<close>

definition ui_input_zero :: UiInput where
  "ui_input_zero =
     \<lparr>ui_type = UI_INPUT_NONE, ui_resize = \<lparr>width = 0, height = 0\<rparr>,
      ui_text = \<lparr>s8_beg = 0, s8_len = 0\<rparr>,
      ui_keyboard = \<lparr>kb_key = 0, kb_modifiers = 0\<rparr>,
      ui_mouse = \<lparr>mouse_action = MOUSE_ACTION_NONE, mouse_modifier = 0,
                  mouse_position = zero_point, mouse_scroll = zero_point\<rparr>\<rparr>"

text \<open>
  The two lookup tables of \<^verbatim>\<open>get_next_ui_input\<close>: the first has 8 entries (final bytes
  \<^verbatim>\<open>'A'\<close> to \<^verbatim>\<open>'H'\<close>), the second 35 (first parameters 0 to 34).
\<close>

definition lut_arrows :: "int list" where
  "lut_arrows = [VK_UP, VK_DOWN, VK_RIGHT, VK_LEFT, 0, VK_END, 0, VK_HOME]"

definition lut_tilde :: "int list" where
  "lut_tilde =
     [0, VK_HOME, VK_INSERT, VK_DELETE, VK_END, VK_PRIOR, VK_NEXT, 0, 0, 0,
      0, 0, 0, 0, 0, 0x74, 0, 0x75, 0x76, 0x77,
      0x78, 0x79, 0, 0x7A, 0x7B, 0x7C, 0x7D, 0, 0x7E, 0x7F,
      0, 0x80, 0x81, 0x82, 0x83]"

text \<open>
  What the \<^verbatim>\<open>switch\<close> over the token kind does with one token: \<^verbatim>\<open>goto done\<close> with a
  result, \<^verbatim>\<open>goto parse_modifiers\<close> with a result, or \<^verbatim>\<open>break\<close>, which goes round the
  loop again with the result still zero. A read outside a lookup table is undefined
  behaviour and has no result.
\<close>

datatype UiInputStep = Done UiInput | ParseModifiers UiInput | Again

definition ui_keyboard_input :: "int \<Rightarrow> int \<Rightarrow> UiInput" where
  "ui_keyboard_input k m =
     ui_input_zero\<lparr>ui_type := UI_INPUT_KEYBOARD, ui_keyboard := \<lparr>kb_key = k, kb_modifiers = m\<rparr>\<rparr>"

definition ui_input_ctrl :: "c8 \<Rightarrow> UiInputStep" where
  "ui_input_ctrl c =
     (if uint c = VK_NULL \<or> uint c = VK_TAB \<or> uint c = VK_RETURN
      then Done (ui_keyboard_input (uint c) 0)
      else if 0x01 \<le> c \<and> c \<le> 0x1a
      then Done (ui_keyboard_input (uint c OR 0x40) KEYBOARD_MODIFIER_CTRL)
      else if c = 0x7f
      then Done (ui_keyboard_input VK_BACK 0)
      else Again)"

definition ui_input_mouse :: "CsiState \<Rightarrow> UiInput" where
  "ui_input_mouse c =
     (let btn = params c 0;
          act = (if btn AND 0x40 \<noteq> 0 then MOUSE_ACTION_SCROLL
                 else if final_byte c = 0x4d
                 then [MOUSE_ACTION_LEFT, MOUSE_ACTION_MIDDLE, MOUSE_ACTION_RIGHT, MOUSE_ACTION_NONE]
                        ! nat (btn AND 0x03)
                 else MOUSE_ACTION_NONE);
          scr = (if btn AND 0x40 \<noteq> 0
                 then \<lparr>px = 0, py = (if btn AND 0x01 \<noteq> 0 then 3 else -3)\<rparr>
                 else zero_point);
          md = KEYBOARD_MODIFIER_NONE
               OR (if btn AND 0x04 \<noteq> 0 then KEYBOARD_MODIFIER_SHIFT else 0)
               OR (if btn AND 0x08 \<noteq> 0 then KEYBOARD_MODIFIER_ALT else 0)
               OR (if btn AND 0x10 \<noteq> 0 then KEYBOARD_MODIFIER_CTRL else 0)
      in ui_input_zero\<lparr>ui_type := UI_INPUT_MOUSE,
           ui_mouse := \<lparr>mouse_action = act, mouse_modifier = md,
                        mouse_position = \<lparr>px = params c 1 - 1, py = params c 2 - 1\<rparr>,
                        mouse_scroll = scr\<rparr>\<rparr>)"

definition ui_input_csi :: "CsiState \<Rightarrow> UiInputStep option" where
  "ui_input_csi c =
     (if final_byte c \<le> 0x48
      then (if final_byte c < 0x41 then None
            else (let vk = lut_arrows ! (unat (final_byte c) - 0x41)
                  in if vk \<noteq> 0 then Some (ParseModifiers (ui_keyboard_input vk 0)) else Some Again))
      else if final_byte c = 0x7e
      then (let p0 = params c 0
            in if 0 \<le> p0 \<and> p0 \<le> int (length lut_tilde)
               then (if p0 = int (length lut_tilde) then None
                     else (let vk = lut_tilde ! nat p0
                           in if vk \<noteq> 0 then Some (ParseModifiers (ui_keyboard_input vk 0))
                              else Some Again))
               else Some Again)
      else if final_byte c = 0x6d \<or> final_byte c = 0x4d
      then (if private_byte c = 0x3c then Some (Done (ui_input_mouse c)) else Some Again)
      else if final_byte c = 0x74
      then (if params c 0 = 8
            then Some (Done (ui_input_zero\<lparr>ui_type := UI_INPUT_RESIZE,
                        ui_resize := \<lparr>width = max (params c 2) 1, height = max (params c 1) 1\<rparr>\<rparr>))
            else Some Again)
      else Some Again)"

definition ui_input_of_token :: "VtParserState \<Rightarrow> UiInputStep option" where
  "ui_input_of_token st =
     (case vt_kind st of
        VT_TOKEN_KIND_TEXT \<Rightarrow> Some (Done (ui_input_zero\<lparr>ui_type := UI_INPUT_TEXT, ui_text := vt_text st\<rparr>))
      | VT_TOKEN_KIND_CTRL \<Rightarrow> Some (ui_input_ctrl (vt_ctrl st))
      | VT_TOKEN_KIND_ESC \<Rightarrow>
          (if vt_esc st \<ge> 0x20 \<and> vt_esc st \<le> 0x7e
           then Some (Done (ui_keyboard_input (uint (vt_esc st)) KEYBOARD_MODIFIER_ALT))
           else Some Again)
      | VT_TOKEN_KIND_SS3 \<Rightarrow>
          (if vt_ss3 st \<ge> 0x50 \<and> vt_ss3 st \<le> 0x53
           then Some (Done (ui_keyboard_input (uint (vt_ss3 st) - 0x50 + VK_F1) 0))
           else Some Again)
      | VT_TOKEN_KIND_CSI \<Rightarrow> ui_input_csi (vt_csi st)
      | VT_TOKEN_KIND_OSC \<Rightarrow> Some Again
      | VT_TOKEN_KIND_DCS \<Rightarrow> Some Again
      | VT_TOKEN_KIND_PENDING \<Rightarrow> Some Again)"

text \<open>The code at the label \<^verbatim>\<open>parse_modifiers\<close>.\<close>

definition ui_parse_modifiers :: "VtParserState \<Rightarrow> UiInput \<Rightarrow> UiInput" where
  "ui_parse_modifiers st result =
     (let p1 = max (params (vt_csi st) 1 - 1) 0;
          m0 = kb_modifiers (ui_keyboard result);
          m1 = (if p1 AND 0x01 \<noteq> 0 then m0 OR KEYBOARD_MODIFIER_SHIFT else m0);
          m2 = (if p1 AND 0x02 \<noteq> 0 then m1 OR KEYBOARD_MODIFIER_ALT else m1);
          m3 = (if p1 AND 0x04 \<noteq> 0 then m2 OR KEYBOARD_MODIFIER_CTRL else m2)
      in result\<lparr>ui_keyboard := (ui_keyboard result)\<lparr>kb_modifiers := m3\<rparr>\<rparr>)"

text \<open>
  The \<^verbatim>\<open>while (it != end)\<close> loop of \<^verbatim>\<open>get_next_ui_input\<close>. When the input runs out
  without an event the code falls through to \<^verbatim>\<open>parse_modifiers\<close> with the zero result.
  The result is the event, the parser state and the input that is left.
\<close>

function get_next_ui_input_loop ::
    "VtParserState \<Rightarrow> nat \<Rightarrow> c8 list \<Rightarrow> (UiInput \<times> VtParserState \<times> c8 list) option" where
  "get_next_ui_input_loop st it bytes =
     (if bytes = [] then Some (ui_parse_modifiers st ui_input_zero, st, [])
      else (case vt_parse_next_token st it bytes of
              None \<Rightarrow> None
            | Some (st', rest) \<Rightarrow>
                (case ui_input_of_token st' of
                   None \<Rightarrow> None
                 | Some (Done r) \<Rightarrow> Some (r, st', rest)
                 | Some (ParseModifiers r) \<Rightarrow> Some (ui_parse_modifiers st' r, st', rest)
                 | Some Again \<Rightarrow> get_next_ui_input_loop st' (it + (length bytes - length rest)) rest)))"
  by pat_completeness auto
termination
proof (relation "measure (\<lambda>(st, it, bytes). length bytes)")
  show "wf (measure (\<lambda>(st, it, bytes). length bytes))"
    by simp
next
  fix st :: VtParserState and it :: nat and bytes :: "c8 list" and x2 x y x2a
  assume ne: "bytes \<noteq> []" and tok: "vt_parse_next_token st it bytes = Some x2" and x2: "(x, y) = x2"
  from tok x2 have "length y \<le> length bytes - 1"
    using vt_parse_next_token_length [of st it bytes x y] by simp
  moreover from ne have "0 < length bytes"
    by simp
  ultimately have "length y < length bytes"
    by linarith
  then show "((x, it + (length bytes - length y), y), st, it, bytes)
      \<in> measure (\<lambda>(st, it, bytes). length bytes)"
    by simp
qed

declare get_next_ui_input_loop.simps [simp del]

text \<open>
  \<^verbatim>\<open>get_next_ui_input(vt_parser_state, input)\<close>, with the view \<^verbatim>\<open>*input\<close> given by the
  address \<open>beg\<close> of its first byte and its bytes.
\<close>

definition get_next_ui_input ::
    "VtParserState \<Rightarrow> nat \<Rightarrow> c8 list \<Rightarrow> (UiInput \<times> VtParserState \<times> c8 list) option" where
  "get_next_ui_input st beg bytes = get_next_ui_input_loop st beg bytes"

text \<open>The two assertions of the resize branch, \<^verbatim>\<open>input.c\<close> lines 171 and 172.\<close>

definition resize_asserts :: "Size \<Rightarrow> bool" where
  "resize_asserts r = ((width r > 0 \<and> height r > 0) \<and> (width r < 32768 \<and> height r < 32768))"

section \<open>tui.c: nodes, scrollarea layout and hit testing\<close>

datatype UiContentType =
  UI_NODE_CONTAINER
  | UI_NODE_TEXT
  | UI_NODE_TEXTAREA
  | UI_NODE_SCROLLAREA

text \<open>
  \<^verbatim>\<open>Attributes\<close> and \<^verbatim>\<open>UiNode\<close>, with the fields that the functions embedded below read or
  write. Left out are the float specification and the grid columns (used by the grid
  and floater layout only), the styled text and the text buffer pointer of the content
  union, and \<^verbatim>\<open>stack_parent\<close>. A node pointer is an address of the frame's arena, a map
  from addresses to nodes; \<open>None\<close> is \<^verbatim>\<open>NULL\<close>. The member \<^verbatim>\<open>content.scrollarea\<close> is the
  field \<open>scrollarea\<close>.
\<close>

record Attributes =
  padding :: Rect
  bg :: "32 word"
  fg :: "32 word"
  floating :: bool
  bordered :: bool

record UiNode =
  node_id :: "64 word"
  parent :: "nat option"
  child_first :: "nat option"
  child_last :: "nat option"
  sibling_prev :: "nat option"
  sibling_next :: "nat option"
  attributes :: Attributes
  content_type :: UiContentType
  scrollarea :: Point
  intrinsic_size :: Size
  intrinsic_size_set :: bool
  outer :: Rect
  inner :: Rect
  outer_clipped :: Rect
  inner_clipped :: Rect

type_synonym UiArena = "nat \<rightharpoonup> UiNode"

















text \<open>
  The hit test of \<^verbatim>\<open>ui_root_reset\<close> walks the previous frame's nodes through their
  pointers. \<open>hit_climb\<close> is the inner \<^verbatim>\<open>while (!node->sibling_next)\<close> loop: its result is
  the sibling to go on with, or \<open>None\<close> for \<^verbatim>\<open>goto next\<close>. \<open>hit_walk\<close> is the loop
  \<^verbatim>\<open>for (UiNode* node = root;;)\<close> and \<open>hit_roots\<close> the loop over the roots; both carry
  \<^verbatim>\<open>best\<close>. A \<^verbatim>\<open>NULL\<close> or dangling pointer that is dereferenced, and a walk that never
  ends, have no result.
\<close>

partial_function (option) hit_climb :: "UiArena \<Rightarrow> nat \<Rightarrow> nat \<Rightarrow> nat option option" where
  "hit_climb h root node =
     (case h node of
        None \<Rightarrow> None
      | Some nd \<Rightarrow>
          (case sibling_next nd of
             Some s \<Rightarrow> Some (Some s)
           | None \<Rightarrow>
               (case parent nd of
                  None \<Rightarrow> None
                | Some p \<Rightarrow> if p = root then Some None else hit_climb h root p)))"

partial_function (option) hit_walk :: "UiArena \<Rightarrow> Point \<Rightarrow> nat \<Rightarrow> nat \<Rightarrow> nat option \<Rightarrow> nat option option" where
  "hit_walk h pos root node best =
     (case h node of
        None \<Rightarrow> None
      | Some nd \<Rightarrow>
          (let best' = (if rect_contains (inner_clipped nd) pos then Some node else best)
           in case child_first nd of
                Some c \<Rightarrow> hit_walk h pos root c best'
              | None \<Rightarrow>
                  (case hit_climb h root node of
                     None \<Rightarrow> None
                   | Some None \<Rightarrow> Some best'
                   | Some (Some s) \<Rightarrow> hit_walk h pos root s best')))"


text \<open>
  The shape the pointers are meant to have. A tree names the address of a node and the
  trees of its children in order. \<open>linked h p nx t\<close> says that in the arena \<open>h\<close> the node
  of \<open>t\<close> has parent \<open>p\<close> and next sibling \<open>nx\<close>, that its first child is the first of
  its children's trees, and that the children are linked in the same way, each to the
  next, the last to \<^verbatim>\<open>NULL\<close>. \<open>linked_roots\<close> is the list of roots (the document root
  followed by the floaters): each root is linked to the next root, has at least one
  child, and may have any parent (a floater keeps the parent it was taken from).
  \<open>preorder\<close> lists the addresses of a tree, a node before its children.
\<close>

datatype UiTree = UiTree nat "UiTree list"

fun tree_addr :: "UiTree \<Rightarrow> nat" where
  "tree_addr (UiTree a cs) = a"


fun first_addr :: "UiTree list \<Rightarrow> nat option" where
  "first_addr [] = None"
| "first_addr (t # ts) = Some (tree_addr t)"

fun preorder :: "UiTree \<Rightarrow> nat list" where
  "preorder (UiTree a cs) = a # concat (map preorder cs)"

fun linked :: "UiArena \<Rightarrow> nat option \<Rightarrow> nat option \<Rightarrow> UiTree \<Rightarrow> bool"
  and linked_children :: "UiArena \<Rightarrow> nat \<Rightarrow> UiTree list \<Rightarrow> bool" where
  "linked h p nx (UiTree a cs) =
     (case h a of
        None \<Rightarrow> False
      | Some nd \<Rightarrow> parent nd = p \<and> sibling_next nd = nx \<and> child_first nd = first_addr cs
                   \<and> linked_children h a cs)"
| "linked_children h p [] = True"
| "linked_children h p (t # ts) = (linked h (Some p) (first_addr ts) t \<and> linked_children h p ts)"


text \<open>
  \<open>hit\<close>: the node at an address contains the pointer in its \<^verbatim>\<open>inner_clipped\<close>.
  \<open>last_hit\<close>: the last address of a list that is hit, or \<open>best\<close> when none is.
\<close>

definition hit :: "UiArena \<Rightarrow> Point \<Rightarrow> nat \<Rightarrow> bool" where
  "hit h pos a = (case h a of None \<Rightarrow> False | Some nd \<Rightarrow> rect_contains (inner_clipped nd) pos)"

definition last_hit :: "UiArena \<Rightarrow> Point \<Rightarrow> nat list \<Rightarrow> nat option \<Rightarrow> nat option" where
  "last_hit h pos addrs best = fold (\<lambda>a b. if hit h pos a then Some a else b) addrs best"

text \<open>
  Two abbreviations for the statements about the walk: where the climb from the last
  child of \<open>p\<close> ends, and how the walk goes on after a climb.
\<close>

definition climb_to :: "UiArena \<Rightarrow> nat \<Rightarrow> nat \<Rightarrow> nat option option" where
  "climb_to h root p = (if p = root then Some None else hit_climb h root p)"

definition walk_then :: "UiArena \<Rightarrow> Point \<Rightarrow> nat \<Rightarrow> nat option option \<Rightarrow> nat option \<Rightarrow> nat option option" where
  "walk_then h pos root nx best =
     (case nx of
        None \<Rightarrow> None
      | Some None \<Rightarrow> Some best
      | Some (Some s) \<Rightarrow> hit_walk h pos root s best)"












text \<open>The bytes of \<^verbatim>\<open>ESC [ 8 ; 1 ; 40000 t\<close>: a window-size report of 1 row and 40000 columns.\<close>

definition resize_input :: "c8 list" where
  "resize_input = [0x1b, 0x5b, 0x38, 0x3b, 0x31, 0x3b, 0x34, 0x30, 0x30, 0x30, 0x30, 0x74]"

chapter \<open>Properties\<close>

section \<open>Selection state machine\<close>

text \<open>
  Claim C3. \<^verbatim>\<open>text_buffer_selection_update(pos)\<close> takes the selection state NONE or DONE to
  MAYBE, sets \<^verbatim>\<open>selection.beg\<close> to \<open>pos\<close> and leaves \<^verbatim>\<open>selection.end\<close> as it was; it takes
  MAYBE or ACTIVE to ACTIVE, sets \<^verbatim>\<open>selection.end\<close> to \<open>pos\<close> and leaves \<^verbatim>\<open>selection.beg\<close>
  as it was. \<^verbatim>\<open>text_buffer_selection_end()\<close> returns true and moves to DONE exactly when
  the state was ACTIVE; from every other state it returns false and moves to NONE. Both
  leave the endpoints they do not set, and every other field of the buffer, untouched.
  The statement enumerates the four states of the selection, each with arbitrary
  endpoints \<open>b\<close>, \<open>e\<close> and an arbitrary buffer \<open>tb\<close> around it.
\<close>

theorem selection_state_machine:
  fixes tb :: TextBuffer and b e pos :: Point
  shows
    "text_buffer_selection_update
        (tb\<lparr>selection := \<lparr>sel_beg = b, sel_end = e, sel_state = TEXT_BUFFER_SELECTION_NONE\<rparr>\<rparr>) pos
      = tb\<lparr>selection := \<lparr>sel_beg = pos, sel_end = e, sel_state = TEXT_BUFFER_SELECTION_MAYBE\<rparr>\<rparr>
     \<and> text_buffer_selection_update
        (tb\<lparr>selection := \<lparr>sel_beg = b, sel_end = e, sel_state = TEXT_BUFFER_SELECTION_DONE\<rparr>\<rparr>) pos
      = tb\<lparr>selection := \<lparr>sel_beg = pos, sel_end = e, sel_state = TEXT_BUFFER_SELECTION_MAYBE\<rparr>\<rparr>
     \<and> text_buffer_selection_update
        (tb\<lparr>selection := \<lparr>sel_beg = b, sel_end = e, sel_state = TEXT_BUFFER_SELECTION_MAYBE\<rparr>\<rparr>) pos
      = tb\<lparr>selection := \<lparr>sel_beg = b, sel_end = pos, sel_state = TEXT_BUFFER_SELECTION_ACTIVE\<rparr>\<rparr>
     \<and> text_buffer_selection_update
        (tb\<lparr>selection := \<lparr>sel_beg = b, sel_end = e, sel_state = TEXT_BUFFER_SELECTION_ACTIVE\<rparr>\<rparr>) pos
      = tb\<lparr>selection := \<lparr>sel_beg = b, sel_end = pos, sel_state = TEXT_BUFFER_SELECTION_ACTIVE\<rparr>\<rparr>
     \<and> text_buffer_selection_end
        (tb\<lparr>selection := \<lparr>sel_beg = b, sel_end = e, sel_state = TEXT_BUFFER_SELECTION_ACTIVE\<rparr>\<rparr>)
      = (True, tb\<lparr>selection := \<lparr>sel_beg = b, sel_end = e, sel_state = TEXT_BUFFER_SELECTION_DONE\<rparr>\<rparr>)
     \<and> text_buffer_selection_end
        (tb\<lparr>selection := \<lparr>sel_beg = b, sel_end = e, sel_state = TEXT_BUFFER_SELECTION_NONE\<rparr>\<rparr>)
      = (False, tb\<lparr>selection := \<lparr>sel_beg = b, sel_end = e, sel_state = TEXT_BUFFER_SELECTION_NONE\<rparr>\<rparr>)
     \<and> text_buffer_selection_end
        (tb\<lparr>selection := \<lparr>sel_beg = b, sel_end = e, sel_state = TEXT_BUFFER_SELECTION_MAYBE\<rparr>\<rparr>)
      = (False, tb\<lparr>selection := \<lparr>sel_beg = b, sel_end = e, sel_state = TEXT_BUFFER_SELECTION_NONE\<rparr>\<rparr>)
     \<and> text_buffer_selection_end
        (tb\<lparr>selection := \<lparr>sel_beg = b, sel_end = e, sel_state = TEXT_BUFFER_SELECTION_DONE\<rparr>\<rparr>)
      = (False, tb\<lparr>selection := \<lparr>sel_beg = b, sel_end = e, sel_state = TEXT_BUFFER_SELECTION_NONE\<rparr>\<rparr>)"
  by (simp add: text_buffer_selection_update_def text_buffer_selection_end_def)

section \<open>Writing nothing, undoing nothing\<close>

text \<open>
  Claim C9. \<^verbatim>\<open>text_buffer_write\<close> with an empty byte string returns at once: the buffer
  after the call is the buffer before it, in every field (undo log, dirty flag, gap,
  length, cursor, selection), whatever the oracle.
\<close>

theorem write_empty_is_noop:
  "text_buffer_write U tb [] = Some tb"
  by (simp add: text_buffer_write_def)

text \<open>
  Claim C10. \<^verbatim>\<open>text_buffer_undo\<close> with \<^verbatim>\<open>undo_tail == NULL\<close> (an empty or fully undone
  log) returns the buffer unchanged. \<^verbatim>\<open>text_buffer_redo\<close> returns the buffer unchanged
  when there is no entry to replay: the tail's \<^verbatim>\<open>next\<close> pointer is \<^verbatim>\<open>NULL\<close>; or the tail is
  \<^verbatim>\<open>NULL\<close> and either there is no undo region at all, or the entry at the start of the
  region has a \<^verbatim>\<open>NULL\<close> \<^verbatim>\<open>next\<close> pointer.
\<close>

theorem undo_redo_without_entry:
  "(undo_tail tb = None \<longrightarrow> text_buffer_undo U tb = Some tb)
   \<and> (undo_tail tb = Some p \<and> undo_read tb p = Some c \<and> ch_next c = None
        \<longrightarrow> text_buffer_redo U tb = Some tb)
   \<and> (undo_tail tb = None \<and> undo_base tb = None \<longrightarrow> text_buffer_redo U tb = Some tb)
   \<and> (undo_tail tb = None \<and> undo_read tb 0 = Some c \<and> ch_next c = None
        \<longrightarrow> text_buffer_redo U tb = Some tb)"
  by (auto simp add: text_buffer_undo_def text_buffer_redo_def undo_read_def split: option.splits)

theorem undo_redo_without_entry_witness:
  "\<forall>U. (undo_tail fresh_buffer = None \<and> text_buffer_undo U fresh_buffer = Some fresh_buffer)
     \<and> (undo_tail (fresh_buffer\<lparr>undo_base := Some [0 \<mapsto> zero_change], undo_tail := Some 0\<rparr>) = Some 0
         \<and> undo_read (fresh_buffer\<lparr>undo_base := Some [0 \<mapsto> zero_change], undo_tail := Some 0\<rparr>) 0
              = Some zero_change
         \<and> ch_next zero_change = None
         \<and> text_buffer_redo U (fresh_buffer\<lparr>undo_base := Some [0 \<mapsto> zero_change], undo_tail := Some 0\<rparr>)
              = Some (fresh_buffer\<lparr>undo_base := Some [0 \<mapsto> zero_change], undo_tail := Some 0\<rparr>))
     \<and> (undo_base fresh_buffer = None \<and> text_buffer_redo U fresh_buffer = Some fresh_buffer)
     \<and> (undo_read (fresh_buffer\<lparr>undo_base := Some [0 \<mapsto> zero_change]\<rparr>) 0 = Some zero_change
         \<and> text_buffer_redo U (fresh_buffer\<lparr>undo_base := Some [0 \<mapsto> zero_change]\<rparr>)
              = Some (fresh_buffer\<lparr>undo_base := Some [0 \<mapsto> zero_change]\<rparr>))"
proof
  fix U
  have a: "undo_tail fresh_buffer = None" "undo_base fresh_buffer = None"
    by (simp_all add: fresh_buffer_def)
  have b: "undo_tail (fresh_buffer\<lparr>undo_base := Some [0 \<mapsto> zero_change], undo_tail := Some 0\<rparr>) = Some 0"
    "undo_read (fresh_buffer\<lparr>undo_base := Some [0 \<mapsto> zero_change], undo_tail := Some 0\<rparr>) 0
       = Some zero_change"
    "ch_next zero_change = None"
    by (simp_all add: undo_read_def zero_change_def)
  have c: "undo_tail (fresh_buffer\<lparr>undo_base := Some [0 \<mapsto> zero_change]\<rparr>) = None"
    "undo_read (fresh_buffer\<lparr>undo_base := Some [0 \<mapsto> zero_change]\<rparr>) 0 = Some zero_change"
    by (simp_all add: undo_read_def fresh_buffer_def)
  show "(undo_tail fresh_buffer = None \<and> text_buffer_undo U fresh_buffer = Some fresh_buffer)
     \<and> (undo_tail (fresh_buffer\<lparr>undo_base := Some [0 \<mapsto> zero_change], undo_tail := Some 0\<rparr>) = Some 0
         \<and> undo_read (fresh_buffer\<lparr>undo_base := Some [0 \<mapsto> zero_change], undo_tail := Some 0\<rparr>) 0
              = Some zero_change
         \<and> ch_next zero_change = None
         \<and> text_buffer_redo U (fresh_buffer\<lparr>undo_base := Some [0 \<mapsto> zero_change], undo_tail := Some 0\<rparr>)
              = Some (fresh_buffer\<lparr>undo_base := Some [0 \<mapsto> zero_change], undo_tail := Some 0\<rparr>))
     \<and> (undo_base fresh_buffer = None \<and> text_buffer_redo U fresh_buffer = Some fresh_buffer)
     \<and> (undo_read (fresh_buffer\<lparr>undo_base := Some [0 \<mapsto> zero_change]\<rparr>) 0 = Some zero_change
         \<and> text_buffer_redo U (fresh_buffer\<lparr>undo_base := Some [0 \<mapsto> zero_change]\<rparr>)
              = Some (fresh_buffer\<lparr>undo_base := Some [0 \<mapsto> zero_change]\<rparr>))"
    using a b c
      undo_redo_without_entry [of fresh_buffer U 0 zero_change]
      undo_redo_without_entry
        [of "fresh_buffer\<lparr>undo_base := Some [0 \<mapsto> zero_change], undo_tail := Some 0\<rparr>" U 0 zero_change]
      undo_redo_without_entry [of "fresh_buffer\<lparr>undo_base := Some [0 \<mapsto> zero_change]\<rparr>" U 0 zero_change]
    by simp
qed

section \<open>Write, undo, redo on a fresh buffer\<close>

lemma text_buffer_create_fresh: "text_buffer_create = Some fresh_buffer"
  by (simp add: text_buffer_create_def fresh_buffer_def text_buffer_allocator_default_realloc_def
        align_up_def sizeof_TextBuffer_def TEXT_BUFFER_ALLOC_CHUNK_BYTES_def
        TEXT_BUFFER_ALLOC_MAX_BYTES_def)

lemma view_nothing: "view tb b 0 = []"
  by (simp add: view_def)

lemma read_forward_empty:
  "text_length tb = 0 \<Longrightarrow> gap_off tb = 0 \<Longrightarrow> text_buffer_read_forward tb 0 = []"
  by (simp add: text_buffer_read_forward_def usize_sub_def view_nothing)

lemma read_backward_origin: "text_buffer_read_backward tb 0 = []"
  by (simp add: text_buffer_read_backward_def view_nothing)

lemma at_origin_fields:
  "text_length (at_origin tb) = text_length tb" "undo_tail (at_origin tb) = undo_tail tb"
  "undo_base (at_origin tb) = undo_base tb" "gap_off (at_origin tb) = gap_off tb"
  "gap_len (at_origin tb) = gap_len tb" "word_wrap_columns (at_origin tb) = word_wrap_columns tb"
  "offset (cursor (at_origin tb)) = 0"
  "undo_base_update f (at_origin tb) = at_origin (undo_base_update f tb)"
  "at_origin (at_origin tb) = at_origin tb"
  by (simp_all add: at_origin_def)

text \<open>In a buffer without text and without word wrap, every cursor movement ends at the origin.\<close>

lemma goto_line_start_empty:
  assumes "text_length tb = 0" "gap_off tb = 0" "offset (cursor tb) = 0" "word_wrap_columns tb < 0"
  shows "text_buffer_goto_line_start U tb y = Some (at_origin tb)"
proof -
  have fwd: "goto_line_start_forward U y tb = Some tb"
    by (subst goto_line_start_forward.simps) (simp add: assms read_forward_empty)
  have bwd: "goto_line_start_backward U y' tb = Some tb" for y'
    by (subst goto_line_start_backward.simps) (simp add: assms read_backward_origin)
  show ?thesis
    unfolding text_buffer_goto_line_start_def
    by (simp add: fwd bwd assms at_origin_def)
qed

lemma move_to_logical_empty:
  assumes "text_length tb = 0" "gap_off tb = 0" "offset (cursor tb) = 0" "word_wrap_columns tb < 0"
  shows "text_buffer_cursor_move_to_logical U tb pos = Some (at_origin tb)"
proof -
  have nw: "move_to_logical_nowrap U x' (at_origin tb) = Some (at_origin tb)" for x'
    by (subst move_to_logical_nowrap.simps) (simp add: assms read_forward_empty at_origin_fields)
  show ?thesis
    unfolding text_buffer_cursor_move_to_logical_def
    by (simp add: goto_line_start_empty [OF assms] nw at_origin_fields assms)
qed

lemma move_delta_empty:
  assumes "text_length tb = 0" "gap_off tb = 0" "offset (cursor tb) = 0" "word_wrap_columns tb < 0"
    and "n \<noteq> 0"
  shows "text_buffer_cursor_move_delta U tb n = Some (at_origin tb)"
proof -
  have a: "text_length (at_origin tb) = 0" "gap_off (at_origin tb) = 0"
    "offset (cursor (at_origin tb)) = 0" "word_wrap_columns (at_origin tb) < 0"
    using assms by (simp_all add: at_origin_fields)
  show ?thesis
    unfolding text_buffer_cursor_move_delta_def
    using assms(5) a(3)
    by (simp add: move_to_logical_empty [OF assms(1-4)] move_to_logical_empty [OF a]
          at_origin_fields assms(3))
qed

lemmas alloc_defs =
  text_buffer_allocate_gap_def text_buffer_allocate_gap_impl_def align_up_def
  TEXT_BUFFER_GAP_CHUNK_BYTES_def sizeof_TextBuffer_def sizeof_TextBufferChange_def
  text_buffer_allocator_default_realloc_def TEXT_BUFFER_ALLOC_CHUNK_BYTES_def
  TEXT_BUFFER_ALLOC_MAX_BYTES_def text_buffer_commit_gap_def usize_add_def usize_sub_def

lemma upt_0_5: "[0..<5] = [0, 1, 2, 3, 4]"
  by code_simp

lemma write_fresh:
  "\<exists>tb1. text_buffer_write U fresh_buffer hello = Some tb1 \<and> text_length tb1 = 5 \<and> gap_off tb1 = 5
      \<and> gap_len tb1 = 4091 \<and> undo_tail tb1 = Some 0 \<and> word_wrap_columns tb1 = -1
      \<and> undo_base tb1 = Some [0 \<mapsto> \<lparr>ch_prev = None, ch_next = None, ch_cursor = zero_cursor,
                                       ch_removed = [], ch_inserted = hello\<rparr>]
      \<and> text_buffer_extract tb1 0 (text_length tb1) = hello"
  by (simp add: fresh_buffer_def hello_def text_buffer_write_def alloc_defs Let_def zero_cursor_def
        zero_point_def text_buffer_record_push_change_def undo_write_def undo_read_def
        text_buffer_extract_def view_def memcpy_def memmove_def upt_0_5)

lemma undo_after_write:
  assumes "text_length tb1 = 5" "gap_off tb1 = 5" "gap_len tb1 = 4091" "undo_tail tb1 = Some 0"
    "word_wrap_columns tb1 = -1"
    "undo_base tb1 = Some [0 \<mapsto> \<lparr>ch_prev = None, ch_next = None, ch_cursor = zero_cursor,
                                     ch_removed = [], ch_inserted = hello\<rparr>]"
  shows "\<exists>tb2 m. text_buffer_undo U tb1 = Some tb2 \<and> text_length tb2 = 0 \<and> undo_tail tb2 = None
      \<and> undo_base tb2 = Some m \<and> map_option ch_next (m 0) = Some None
      \<and> map_option ch_removed (m 0) = Some hello"
  using assms
  by (simp add: text_buffer_undo_def undo_read_def undo_write_def text_buffer_apply_change_def
        alloc_defs Let_def zero_cursor_def zero_point_def hello_def move_delta_empty at_origin_fields)

lemma redo_after_undo:
  assumes "undo_tail tb2 = None" "undo_base tb2 = Some m" "map_option ch_next (m 0) = Some None"
  shows "text_buffer_redo U tb2 = Some tb2"
  using assms by (auto simp add: text_buffer_redo_def undo_read_def split: option.splits)

text \<open>
  Claim C1 states that write, undo, redo ends in the state after the write. On the buffer
  that \<^verbatim>\<open>text_buffer_create\<close> returns the code does otherwise, whatever the oracle:
  writing \<^verbatim>\<open>"hello"\<close> gives the text \<^verbatim>\<open>"hello"\<close>, undo gives the empty text, and redo then
  replays nothing: the text stays empty. The entry of the write lies at the very start
  of the undo region, where \<^verbatim>\<open>text_buffer_redo\<close> looks for the predecessor of the entry
  to replay. The three components are the texts after the write, after the undo and
  after the redo.
\<close>

theorem write_undo_redo_on_fresh_buffer:
  "do { tb0 \<leftarrow> text_buffer_create;
        tb1 \<leftarrow> text_buffer_write U tb0 hello;
        tb2 \<leftarrow> text_buffer_undo U tb1;
        tb3 \<leftarrow> text_buffer_redo U tb2;
        Some (text_buffer_extract tb1 0 (text_length tb1),
              text_buffer_extract tb2 0 (text_length tb2),
              text_buffer_extract tb3 0 (text_length tb3)) } = Some (hello, [], [])"
proof -
  obtain tb1 where w: "text_buffer_write U fresh_buffer hello = Some tb1"
    and f: "text_length tb1 = 5" "gap_off tb1 = 5" "gap_len tb1 = 4091" "undo_tail tb1 = Some 0"
      "word_wrap_columns tb1 = -1"
      "undo_base tb1 = Some [0 \<mapsto> \<lparr>ch_prev = None, ch_next = None, ch_cursor = zero_cursor,
                                       ch_removed = [], ch_inserted = hello\<rparr>]"
    and e1: "text_buffer_extract tb1 0 (text_length tb1) = hello"
    using write_fresh [of U] by blast
  obtain tb2 m where u: "text_buffer_undo U tb1 = Some tb2"
    and g: "text_length tb2 = 0" "undo_tail tb2 = None" "undo_base tb2 = Some m"
      "map_option ch_next (m 0) = Some None"
    using undo_after_write [OF f, of U] by blast
  have r: "text_buffer_redo U tb2 = Some tb2"
    by (rule redo_after_undo [OF g(2-4)])
  have e2: "text_buffer_extract tb2 0 (text_length tb2) = []"
    by (simp add: g(1) text_buffer_extract_def)
  show ?thesis
    by (simp add: text_buffer_create_fresh w u r e1 e2)
qed

section \<open>The resize event\<close>

text \<open>
  Claim C4 states that the width and height of a RESIZE event are clamped to at least 1
  and below 32768. The classifier clamps from below only (\<^verbatim>\<open>max(p, 1)\<close>); the tokenizer
  saturates a parameter at 65535. On the input \<^verbatim>\<open>ESC [ 8 ; 1 ; 40000 t\<close> the event is
  RESIZE with width 40000 and height 1, and the two assertions the code itself makes
  about the event (\<open>resize_asserts\<close>) do not hold.
\<close>

theorem resize_width_not_clamped_above:
  "map_option (\<lambda>(r, st, rest). (ui_type r, ui_resize r, resize_asserts (ui_resize r), rest))
      (get_next_ui_input vt_initial 0 resize_input)
   = Some (UI_INPUT_RESIZE, \<lparr>width = 40000, height = 1\<rparr>, False, [])"
  by code_simp

section \<open>Scrollarea layout\<close>







section \<open>Hit testing in \<^verbatim>\<open>ui_root_reset\<close>\<close>

lemma last_hit_Nil: "last_hit h pos [] best = best"
  by (simp add: last_hit_def)

lemma last_hit_Cons:
  "last_hit h pos (a # as) best = last_hit h pos as (if hit h pos a then Some a else best)"
  by (simp add: last_hit_def)

lemma last_hit_append:
  "last_hit h pos (as @ bs) best = last_hit h pos bs (last_hit h pos as best)"
  by (simp add: last_hit_def)

lemma hit_walk_unfold:
  assumes "h a = Some nd"
  shows "hit_walk h pos r a best =
     (case child_first nd of
        Some c \<Rightarrow> hit_walk h pos r c (last_hit h pos [a] best)
      | None \<Rightarrow> walk_then h pos r (hit_climb h r a) (last_hit h pos [a] best))"
  using assms
  by (subst hit_walk.simps)
     (simp add: walk_then_def last_hit_Cons last_hit_Nil hit_def Let_def split: option.splits)

lemma hit_climb_unfold:
  assumes "h a = Some nd"
  shows "hit_climb h r a =
     (case sibling_next nd of
        Some s \<Rightarrow> Some (Some s)
      | None \<Rightarrow> (case parent nd of None \<Rightarrow> None | Some p \<Rightarrow> climb_to h r p))"
  using assms by (subst hit_climb.simps) (simp add: climb_to_def split: option.splits)

lemma walk_subtree:
  "linked h p nx t \<Longrightarrow> r \<notin> set (preorder t)
     \<Longrightarrow> hit_walk h pos r (tree_addr t) best
          = walk_then h pos r (hit_climb h r (tree_addr t)) (last_hit h pos (preorder t) best)"
  and walk_children:
  "linked_children h q ts \<Longrightarrow> ts \<noteq> [] \<Longrightarrow> r \<notin> set (concat (map preorder ts))
     \<Longrightarrow> hit_walk h pos r (tree_addr (hd ts)) best
          = walk_then h pos r (climb_to h r q) (last_hit h pos (concat (map preorder ts)) best)"
proof (induction h p nx t and h q ts arbitrary: best and best rule: linked_linked_children.induct)
  case (1 h p nx a cs)
  from "1.prems" obtain nd where nd: "h a = Some nd" and f: "child_first nd = first_addr cs"
    and lc: "linked_children h a cs"
    by (auto split: option.splits)
  from "1.prems" have ar: "a \<noteq> r" and cr: "r \<notin> set (concat (map preorder cs))"
    by auto
  show ?case
  proof (cases cs)
    case Nil
    with nd f show ?thesis
      by (simp add: hit_walk_unfold [of h _ nd, OF nd])
  next
    case (Cons c cs')
    then have ne: "cs \<noteq> []" by simp
    from Cons f have cf: "child_first nd = Some (tree_addr (hd cs))"
      by simp
    have "hit_walk h pos r a best = hit_walk h pos r (tree_addr (hd cs)) (last_hit h pos [a] best)"
      by (simp add: hit_walk_unfold [of h _ nd, OF nd] cf)
    also have "\<dots> = walk_then h pos r (climb_to h r a)
                       (last_hit h pos (concat (map preorder cs)) (last_hit h pos [a] best))"
      by (rule "1.IH" [OF nd lc ne cr])
    also have "\<dots> = walk_then h pos r (hit_climb h r a) (last_hit h pos (preorder (UiTree a cs)) best)"
      using ar by (simp add: climb_to_def last_hit_Cons last_hit_Nil)
    finally show ?thesis by simp
  qed
next
  case (2 h p)
  then show ?case by simp
next
  case (3 h q t ts)
  from "3.prems" have lt: "linked h (Some q) (first_addr ts) t" and lts: "linked_children h q ts"
    and rt: "r \<notin> set (preorder t)" and rts: "r \<notin> set (concat (map preorder ts))"
    by auto
  from lt obtain nd where nd: "h (tree_addr t) = Some nd" and par: "parent nd = Some q"
    and sib: "sibling_next nd = first_addr ts"
    by (cases t) (auto split: option.splits)
  have step: "hit_walk h pos r (tree_addr t) best
      = walk_then h pos r (hit_climb h r (tree_addr t)) (last_hit h pos (preorder t) best)"
    by (rule "3.IH"(1) [OF lt rt])
  show ?case
  proof (cases ts)
    case Nil
    with sib par have "hit_climb h r (tree_addr t) = climb_to h r q"
      by (simp add: hit_climb_unfold [of h _ nd, OF nd])
    with step Nil show ?thesis by simp
  next
    case (Cons u us)
    then have ne: "ts \<noteq> []" by simp
    from Cons sib have "hit_climb h r (tree_addr t) = Some (Some (tree_addr (hd ts)))"
      by (simp add: hit_climb_unfold [of h _ nd, OF nd])
    with step have "hit_walk h pos r (tree_addr t) best
        = hit_walk h pos r (tree_addr (hd ts)) (last_hit h pos (preorder t) best)"
      by (simp add: walk_then_def)
    also have "\<dots> = walk_then h pos r (climb_to h r q)
        (last_hit h pos (concat (map preorder ts)) (last_hit h pos (preorder t) best))"
      by (rule "3.IH"(2) [OF lts ne rts])
    finally show ?thesis
      by (simp add: last_hit_append)
  qed
qed











end
